theory Spec2Isabelle
  imports Complex_Main
begin

section \<open>Halstead metrics and the Maintainability Index of radon/metrics.py\<close>

text \<open>
  The module computes with Python ints and floats.  The counts delivered by the visitors
  are sizes, hence natural numbers; every float is idealised as a real number, so rounding
  and the overflow of astronomically large values are not part of the model.  What is part
  of the model is every exception the arithmetic itself can raise: \<^verbatim>\<open>math.log\<close> and
  \<^verbatim>\<open>math.sqrt\<close> outside their domain and the float division by zero.  A function that can
  raise returns \<open>py_error + 'a\<close>, with \<open>Inl\<close> for the exception.
\<close>

subsection \<open>Exceptions and the functions of the math module\<close>

datatype py_error = ValueError | ZeroDivisionError

text \<open>Sequencing of two computations: the first exception raised ends the evaluation.\<close>

definition and_then :: "py_error + 'a \<Rightarrow> ('a \<Rightarrow> py_error + 'b) \<Rightarrow> py_error + 'b" where
  "and_then m f = (case m of Inl e \<Rightarrow> Inl e | Inr x \<Rightarrow> f x)"

text \<open>\<^verbatim>\<open>math.log(x)\<close>: a math domain error unless \<open>x\<close> is positive.\<close>

definition math_log :: "real \<Rightarrow> py_error + real" where
  "math_log x = (if x \<le> 0 then Inl ValueError else Inr (ln x))"

text \<open>
  \<^verbatim>\<open>math.log(x, base)\<close>: the logarithm of \<open>x\<close>, then the logarithm of the base, then their
  quotient.
\<close>

definition math_log_base :: "real \<Rightarrow> real \<Rightarrow> py_error + real" where
  "math_log_base x base =
     and_then (math_log x) (\<lambda>num.
     and_then (math_log base) (\<lambda>den.
       if den = 0 then Inl ZeroDivisionError else Inr (num / den)))"

text \<open>\<^verbatim>\<open>math.sqrt(x)\<close>: a math domain error when \<open>x\<close> is negative.\<close>

definition math_sqrt :: "real \<Rightarrow> py_error + real" where
  "math_sqrt x = (if x < 0 then Inl ValueError else Inr (sqrt x))"

text \<open>\<^verbatim>\<open>a / float(b)\<close>: a float division, which raises when the divisor is zero.\<close>

definition float_div :: "real \<Rightarrow> real \<Rightarrow> py_error + real" where
  "float_div a b = (if b = 0 then Inl ZeroDivisionError else Inr (a / b))"

subsection \<open>The data\<close>

text \<open>The namedtuple \<^verbatim>\<open>Halstead\<close>; its field \<^verbatim>\<open>length\<close> is \<open>length_h\<close> here.\<close>

record Halstead =
  h1 :: nat
  h2 :: nat
  N1 :: nat
  N2 :: nat
  vocabulary :: nat
  length_h :: nat
  calculated_length :: real
  volume :: real
  difficulty :: real
  effort :: real
  time :: real
  bugs :: real

text \<open>
  What \<^verbatim>\<open>h_visit_ast\<close> reads from the visitor that \<^verbatim>\<open>HalsteadVisitor.from_ast\<close> returns.
  The class lives in \<^verbatim>\<open>radon.visitors\<close>; its four counters are taken as they come.
\<close>

record HalsteadVisitor =
  distinct_operators :: nat
  distinct_operands :: nat
  operators :: nat
  operands :: nat

text \<open>
  What \<^verbatim>\<open>mi_parameters\<close> reads from the result of \<^verbatim>\<open>radon.raw.analyze\<close>: the source
  lines, the logical lines, the comment lines and the lines of multi-line strings.
\<close>

record raw_module =
  sloc :: nat
  lloc :: nat
  comments :: nat
  multi :: nat

subsection \<open>compute_mi\<close>

definition compute_mi :: "real \<Rightarrow> real \<Rightarrow> real \<Rightarrow> real \<Rightarrow> py_error + real" where
  "compute_mi halstead_volume complexity sloc' comments' =
     and_then (if sloc' > 0 then math_log sloc' else Inr 0) (\<lambda>sloc_scale.
     and_then (if halstead_volume > 0 then math_log halstead_volume else Inr 0) (\<lambda>volume_scale.
     and_then (if comments' \<noteq> 0 then math_sqrt (2.46 * comments') else Inr 0) (\<lambda>comments_scale.
       Inr (max 0 ((171 - 5.2 * volume_scale - 0.23 * complexity -
                    16.2 * sloc_scale + 50 * sin comments') * 100 / 171)))))"

subsection \<open>h_visit_ast\<close>

definition h_visit_ast :: "HalsteadVisitor \<Rightarrow> py_error + Halstead" where
  "h_visit_ast visitor =
     (let h1 = distinct_operators visitor; h2 = distinct_operands visitor;
          N1 = operators visitor; N2 = operands visitor;
          h = h1 + h2;
          N = N1 + N2
      in and_then (math_log_base (real (h ^ N)) 2) (\<lambda>volume.
         and_then (if h2 \<noteq> 0 then float_div (real (h1 * N2)) (real (2 * h2)) else Inr 0)
           (\<lambda>difficulty.
         let effort = difficulty * volume
         in and_then (math_log_base (real h1) 2) (\<lambda>log_h1.
            and_then (math_log_base (real h2) 2) (\<lambda>log_h2.
              Inr \<lparr>h1 = h1, h2 = h2, N1 = N1, N2 = N2, vocabulary = h, length_h = N,
                   calculated_length = real h1 * log_h1 + real h2 * log_h2,
                   volume = volume, difficulty = difficulty, effort = effort,
                   time = effort / 18, bugs = volume / 3000\<rparr>)))))"

subsection \<open>mi_parameters and mi_visit\<close>

text \<open>
  \<^verbatim>\<open>ast.parse\<close>, the two visitors and \<^verbatim>\<open>analyze\<close> are not part of this module: the
  Halstead visitor of the tree, the value of
  \<^verbatim>\<open>average_complexity(cc_visit_ast(ast_node))\<close> and the result of \<^verbatim>\<open>analyze(code)\<close> stand
  for the source code, each taken as the value its call returns.  The statements run in the order of the source: the comment
  percentage is computed before the Halstead metrics.
\<close>

definition mi_parameters ::
  "HalsteadVisitor \<Rightarrow> real \<Rightarrow> raw_module \<Rightarrow> bool \<Rightarrow> py_error + (real \<times> real \<times> nat \<times> real)" where
  "mi_parameters visitor average_cc raw count_multi =
     (let comments_lines = comments raw + (if count_multi then multi raw else 0)
      in and_then (float_div (real (comments raw)) (real (sloc raw))) (\<lambda>q.
         let comments' = q * 100
         in and_then (h_visit_ast visitor) (\<lambda>hal.
              Inr (volume hal, average_cc, lloc raw, comments'))))"

definition mi_visit :: "HalsteadVisitor \<Rightarrow> real \<Rightarrow> raw_module \<Rightarrow> bool \<Rightarrow> py_error + real" where
  "mi_visit visitor average_cc raw multi' =
     and_then (mi_parameters visitor average_cc raw multi')
       (\<lambda>(v, c, s, p). compute_mi v c (real s) p)"

subsection \<open>The formulas the specification gives\<close>

text \<open>
  The Maintainability Index as the specification writes it (section 4.3): a closed formula
  with no failure case.
\<close>

definition computeMI_spec :: "real \<Rightarrow> real \<Rightarrow> real \<Rightarrow> real \<Rightarrow> real" where
  "computeMI_spec volume' complexity logicalLines commentPercentage =
     (let sloc_scale = (if logicalLines > 0 then ln logicalLines else 0);
          volume_scale = (if volume' > 0 then ln volume' else 0);
          mi_raw = 171 - 5.2 * volume_scale - 0.23 * complexity - 16.2 * sloc_scale
                   + 50 * sin commentPercentage
      in max 0 (mi_raw * 100 / 171))"

text \<open>
  The comment percentage as the specification writes it (section 4.2): the comment lines,
  plus the lines of multi-line strings when the flag is set, as a percentage of the logical
  lines.
\<close>

definition comment_percentage_spec :: "raw_module \<Rightarrow> bool \<Rightarrow> real" where
  "comment_percentage_spec raw countMultilineAsComment =
     real (comments raw + (if countMultilineAsComment then multi raw else 0))
       / real (lloc raw) * 100"

text \<open>\<^verbatim>\<open>compute_mi\<close> with the line that assigns \<^verbatim>\<open>comments_scale\<close> removed.\<close>

definition compute_mi_without_comments_scale ::
  "real \<Rightarrow> real \<Rightarrow> real \<Rightarrow> real \<Rightarrow> py_error + real" where
  "compute_mi_without_comments_scale halstead_volume complexity sloc' comments' =
     and_then (if sloc' > 0 then math_log sloc' else Inr 0) (\<lambda>sloc_scale.
     and_then (if halstead_volume > 0 then math_log halstead_volume else Inr 0) (\<lambda>volume_scale.
       Inr (max 0 ((171 - 5.2 * volume_scale - 0.23 * complexity -
                    16.2 * sloc_scale + 50 * sin comments') * 100 / 171))))"

section \<open>Basic facts\<close>

lemma and_then_Inr [simp]: "and_then (Inr x) f = f x"
  by (simp add: and_then_def)

lemma and_then_Inl [simp]: "and_then (Inl e) f = Inl e"
  by (simp add: and_then_def)

lemma math_log_base_2: "math_log_base x 2 = (if x \<le> 0 then Inl ValueError else Inr (log 2 x))"
  by (simp add: math_log_base_def math_log_def log_def)

text \<open>
  \<^verbatim>\<open>compute_mi\<close> in closed form: the two guarded logarithms never raise, the square root
  raises exactly on a negative last argument.
\<close>

lemma compute_mi_unfold:
  "compute_mi v c s p =
     (if p < 0 then Inl ValueError
      else Inr (max 0 ((171 - 5.2 * (if v > 0 then ln v else 0) - 0.23 * c -
                        16.2 * (if s > 0 then ln s else 0) + 50 * sin p) * 100 / 171)))"
  by (simp add: compute_mi_def math_log_def math_sqrt_def mult_less_0_iff)

lemma compute_mi_without_comments_scale_unfold:
  "compute_mi_without_comments_scale v c s p =
     Inr (max 0 ((171 - 5.2 * (if v > 0 then ln v else 0) - 0.23 * c -
                  16.2 * (if s > 0 then ln s else 0) + 50 * sin p) * 100 / 171))"
  by (simp add: compute_mi_without_comments_scale_def math_log_def)

lemma power_of_counts_pos: "0 < h \<Longrightarrow> \<not> real (h ^ N) \<le> 0"
  by (simp add: not_le)

lemma log2_power_of_counts: "0 < h \<Longrightarrow> log 2 (real (h ^ N)) = real N * log 2 (real h)"
  by (simp add: log_nat_power)

text \<open>
  \<^verbatim>\<open>h_visit_ast\<close> in closed form.  The tuple is built only when both distinct counts are
  positive: otherwise \<^verbatim>\<open>math.log(h1, 2)\<close> or \<^verbatim>\<open>math.log(h2, 2)\<close> in the calculated length
  (or, before it, \<^verbatim>\<open>math.log(h ** N, 2)\<close> when \<open>h = 0 < N\<close>) raises.
\<close>

lemma h_visit_ast_unfold:
  "h_visit_ast v =
     (if distinct_operators v = 0 \<or> distinct_operands v = 0 then Inl ValueError
      else Inr \<lparr>h1 = distinct_operators v, h2 = distinct_operands v,
                N1 = operators v, N2 = operands v,
                vocabulary = distinct_operators v + distinct_operands v,
                length_h = operators v + operands v,
                calculated_length =
                  real (distinct_operators v) * log 2 (real (distinct_operators v)) +
                  real (distinct_operands v) * log 2 (real (distinct_operands v)),
                volume = real (operators v + operands v) *
                         log 2 (real (distinct_operators v + distinct_operands v)),
                difficulty = real (distinct_operators v * operands v) /
                             real (2 * distinct_operands v),
                effort = real (distinct_operators v * operands v) /
                         real (2 * distinct_operands v) *
                         (real (operators v + operands v) *
                          log 2 (real (distinct_operators v + distinct_operands v))),
                time = real (distinct_operators v * operands v) /
                       real (2 * distinct_operands v) *
                       (real (operators v + operands v) *
                        log 2 (real (distinct_operators v + distinct_operands v))) / 18,
                bugs = real (operators v + operands v) *
                       log 2 (real (distinct_operators v + distinct_operands v)) / 3000\<rparr>)"
proof (cases "distinct_operators v = 0 \<or> distinct_operands v = 0")
  case zero: True
  show ?thesis
  proof (cases "real ((distinct_operators v + distinct_operands v) ^ (operators v + operands v)) \<le> 0")
    case True
    with zero show ?thesis
      by (simp add: h_visit_ast_def Let_def math_log_base_2)
  next
    case False
    with zero show ?thesis
      by (auto simp add: h_visit_ast_def Let_def math_log_base_2 float_div_def)
  qed
next
  case False
  then have "0 < distinct_operators v" and "0 < distinct_operands v"
    by simp_all
  then show ?thesis
    by (simp add: h_visit_ast_def Let_def float_div_def math_log_base_2
                  power_of_counts_pos log2_power_of_counts
             del: of_nat_add of_nat_power of_nat_mult)
qed

text \<open>The Halstead metrics of a unit with operators and operands, field by field.\<close>

lemma h_visit_ast_returns:
  assumes "0 < distinct_operators v" and "0 < distinct_operands v"
  shows "\<exists>r. h_visit_ast v = Inr r
           \<and> vocabulary r = distinct_operators v + distinct_operands v
           \<and> length_h r = operators v + operands v
           \<and> volume r = real (length_h r) * log 2 (real (vocabulary r))
           \<and> difficulty r = (real (distinct_operators v) / 2) *
                             (real (operands v) / real (distinct_operands v))
           \<and> effort r = difficulty r * volume r
           \<and> time r = effort r / 18
           \<and> bugs r = volume r / 3000"
  using assms by (simp add: h_visit_ast_unfold)

lemma h_visit_ast_raises_iff:
  "h_visit_ast v = Inl ValueError \<longleftrightarrow> distinct_operators v = 0 \<or> distinct_operands v = 0"
  by (simp add: h_visit_ast_unfold)

section \<open>The Halstead engine on units without operators or operands\<close>

text \<open>
  C1. Claim: for all non-negative counts with distinct at most total, the Halstead
  computation never raises and never takes the logarithm of a non-positive number; it
  returns a record even when \<open>h1 = 0\<close> or \<open>h2 = 0\<close>.  The code does not: for a unit with no
  operator and a single operand, \<^verbatim>\<open>math.log(h1, 2)\<close> is the logarithm of zero and the call
  ends in a ValueError.
\<close>

theorem h_visit_ast_no_operator_raises:
  "math_log_base (real (distinct_operators
       \<lparr>distinct_operators = 0, distinct_operands = 1, operators = 0, operands = 1\<rparr>)) 2
     = Inl ValueError
   \<and> h_visit_ast \<lparr>distinct_operators = 0, distinct_operands = 1, operators = 0, operands = 1\<rparr>
     = Inl ValueError"
  by (simp add: h_visit_ast_unfold math_log_base_2)

text \<open>
  C5. Claim: on the all-zero input the Halstead computation raises nothing and returns
  volume, difficulty, effort, time and bugs all zero.  The code raises a ValueError there
  and returns no record.
\<close>

theorem h_visit_ast_all_zero_raises:
  "h_visit_ast \<lparr>distinct_operators = 0, distinct_operands = 0, operators = 0, operands = 0\<rparr>
     = Inl ValueError
   \<and> (\<nexists>r. h_visit_ast
          \<lparr>distinct_operators = 0, distinct_operands = 0, operators = 0, operands = 0\<rparr>
        = Inr r)"
  by (simp add: h_visit_ast_unfold)

text \<open>
  C6. Claim: the volume is \<open>N * log2 h\<close> when \<open>h > 0\<close> and \<open>0\<close> when \<open>h = 0\<close>, and for \<open>h = 0\<close>
  no logarithm of zero is evaluated.  On the all-zero input the volume line itself yields
  \<open>0\<close> (\<open>0 ** 0\<close> is \<open>1\<close>), but the calculated length then evaluates \<^verbatim>\<open>math.log(0, 2)\<close>, so
  no volume is returned; with \<open>h = 0\<close> and a positive length the volume line itself
  takes the logarithm of zero.
\<close>

theorem h_visit_ast_volume_of_empty_vocabulary:
  "math_log_base (real ((0 + 0) ^ (0 + 0))) 2 = Inr 0
   \<and> math_log_base (real (0::nat)) 2 = Inl ValueError
   \<and> map_sum id volume (h_visit_ast
         \<lparr>distinct_operators = 0, distinct_operands = 0, operators = 0, operands = 0\<rparr>)
       = Inl ValueError
   \<and> math_log_base (real ((0 + 0) ^ (1 + 0))) 2 = Inl ValueError"
  by (simp add: h_visit_ast_unfold math_log_base_2)

text \<open>
  C7. Claim: the difficulty is \<open>(h1 / 2) * (N2 / h2)\<close> when \<open>h2\<close> is not zero and \<open>0\<close> when it
  is, and with \<open>h2 = 0 < h1\<close> the volume is still returned.  With two distinct operators,
  three operators and no operand the guarded difficulty is \<open>0\<close>, but
  \<^verbatim>\<open>math.log(h2, 2)\<close> raises afterwards: neither difficulty nor volume is returned.
\<close>

theorem h_visit_ast_no_operand_raises:
  "map_sum id difficulty (h_visit_ast
       \<lparr>distinct_operators = 2, distinct_operands = 0, operators = 3, operands = 0\<rparr>)
     = Inl ValueError
   \<and> map_sum id volume (h_visit_ast
       \<lparr>distinct_operators = 2, distinct_operands = 0, operators = 3, operands = 0\<rparr>)
     = Inl ValueError"
  by (simp add: h_visit_ast_unfold)

section \<open>The parameters of the Maintainability Index\<close>

text \<open>
  C2, as stated: the fourth result of \<^verbatim>\<open>mi_parameters\<close> is the comment lines (plus the
  multi-line string lines when the flag is set) as a percentage of the logical lines, and
  the flag changes it whenever there are multi-line string lines.  It fails for a unit of
  four source lines, two logical lines, one comment line and three lines of multi-line
  strings: the code returns 25 under either flag, the claim asks for 200 and 50.
\<close>

theorem mi_parameters_percentage_counterexample:
  "mi_parameters \<lparr>distinct_operators = 2, distinct_operands = 1, operators = 3, operands = 1\<rparr>
       1 \<lparr>sloc = 4, lloc = 2, comments = 1, multi = 3\<rparr> True
     = Inr (4 * log 2 3, 1, 2, 25)
   \<and> mi_parameters \<lparr>distinct_operators = 2, distinct_operands = 1, operators = 3, operands = 1\<rparr>
       1 \<lparr>sloc = 4, lloc = 2, comments = 1, multi = 3\<rparr> False
     = Inr (4 * log 2 3, 1, 2, 25)
   \<and> comment_percentage_spec \<lparr>sloc = 4, lloc = 2, comments = 1, multi = 3\<rparr> True = 200
   \<and> comment_percentage_spec \<lparr>sloc = 4, lloc = 2, comments = 1, multi = 3\<rparr> False = 50"
  by (simp add: mi_parameters_def Let_def float_div_def h_visit_ast_unfold
                comment_percentage_spec_def)

text \<open>
  C2, amended: the percentage is taken of the source lines \<^verbatim>\<open>raw.sloc\<close>, not of the logical
  lines.  For a unit with at least one source line whose Halstead metrics exist, and with
  the flag unset or no multi-line string lines, the fourth result is the comment count
  (with the conditional addition) divided by the source lines, times 100; the third result
  is the logical-line count.
\<close>

theorem mi_parameters_percentage_of_sloc:
  assumes "0 < sloc raw"
    and "0 < distinct_operators visitor" and "0 < distinct_operands visitor"
    and "\<not> count_multi \<or> multi raw = 0"
  shows "mi_parameters visitor average_cc raw count_multi =
           Inr (real (operators visitor + operands visitor) *
                  log 2 (real (distinct_operators visitor + distinct_operands visitor)),
                average_cc, lloc raw,
                real (comments raw + (if count_multi then multi raw else 0))
                  / real (sloc raw) * 100)"
  using assms
  by (auto simp add: mi_parameters_def Let_def float_div_def h_visit_ast_unfold)

theorem mi_parameters_percentage_of_sloc_witness:
  "mi_parameters \<lparr>distinct_operators = 2, distinct_operands = 1, operators = 3, operands = 1\<rparr>
       1 \<lparr>sloc = 4, lloc = 2, comments = 1, multi = 3\<rparr> False
     = Inr (4 * log 2 3, 1, 2, 25)"
  using mi_parameters_percentage_of_sloc
    [of "\<lparr>sloc = 4, lloc = 2, comments = 1, multi = 3\<rparr>"
        "\<lparr>distinct_operators = 2, distinct_operands = 1, operators = 3, operands = 1\<rparr>"
        False 1]
  by simp

text \<open>
  C4. Claim: with zero logical lines \<^verbatim>\<open>mi_parameters\<close> does not divide by zero, takes the
  comment percentage to be \<open>0\<close> and returns.  For the empty source unit (no line of any
  kind) the unguarded division \<^verbatim>\<open>raw.comments / float(raw.sloc)\<close> raises
  ZeroDivisionError, whatever the visitors deliver and whatever the flag.
\<close>

theorem mi_parameters_empty_unit_raises:
  "mi_parameters visitor average_cc \<lparr>sloc = 0, lloc = 0, comments = 0, multi = 0\<rparr> count_multi
     = Inl ZeroDivisionError"
  by (simp add: mi_parameters_def Let_def float_div_def)

text \<open>
  C9. The flag of \<^verbatim>\<open>mi_visit\<close> has no effect: \<^verbatim>\<open>comments_lines\<close>, the only value that
  depends on it, is not used, so \<^verbatim>\<open>mi_parameters\<close> and \<^verbatim>\<open>mi_visit\<close> return the same result
  (or raise the same exception) under both values of the flag.
\<close>

theorem mi_visit_ignores_multi:
  "mi_parameters visitor average_cc raw True = mi_parameters visitor average_cc raw False
   \<and> mi_visit visitor average_cc raw True = mi_visit visitor average_cc raw False"
  by (simp add: mi_visit_def mi_parameters_def Let_def)

section \<open>The Maintainability Index formula\<close>

text \<open>
  C3, as stated: for every finite volume, complexity, logical-line count and comment
  percentage, \<^verbatim>\<open>compute_mi\<close> is the formula of the specification.  It fails for a negative
  comment percentage: \<^verbatim>\<open>compute_mi(1, 1, 1, -1)\<close> evaluates \<^verbatim>\<open>math.sqrt(-2.46)\<close> and raises
  ValueError, where the formula has a value.
\<close>

theorem compute_mi_negative_percentage_counterexample:
  "compute_mi 1 1 1 (- 1) = Inl ValueError
   \<and> compute_mi 1 1 1 (- 1) \<noteq> Inr (computeMI_spec 1 1 1 (- 1))"
  by (simp add: compute_mi_unfold)

text \<open>
  C3, amended: for every volume, complexity and logical-line count and every comment
  percentage that is not negative, \<^verbatim>\<open>compute_mi\<close> returns the formula of the specification,
  with the sine of the raw percentage; and \<^verbatim>\<open>compute_mi(1, 1, 1, 0)\<close> is \<open>170.77 * 100 / 171\<close>.
\<close>

theorem compute_mi_formula:
  "(0 \<le> p \<longrightarrow> compute_mi v c s p = Inr (computeMI_spec v c s p))
   \<and> (0 \<le> p \<longrightarrow> compute_mi v c s p =
         Inr (max 0 ((171 - 5.2 * (if v > 0 then ln v else 0) - 0.23 * c
                      - 16.2 * (if s > 0 then ln s else 0) + 50 * sin p) * 100 / 171)))
   \<and> compute_mi 1 1 1 0 = Inr (170.77 * 100 / 171)"
  by (simp add: compute_mi_unfold computeMI_spec_def Let_def)

theorem compute_mi_formula_witness:
  "compute_mi 4 2 3 35 = Inr (computeMI_spec 4 2 3 35)
   \<and> compute_mi 4 2 3 35 =
       Inr (max 0 ((171 - 5.2 * ln 4 - 0.23 * 2 - 16.2 * ln 3 + 50 * sin 35) * 100 / 171))"
  using compute_mi_formula [of 35 4 2 3] by (simp add: computeMI_spec_def Let_def)

text \<open>
  C8. \<^verbatim>\<open>compute_mi\<close> does not increase when the complexity grows, when a positive volume
  grows, or when a positive line count grows, the other arguments fixed: both calls return
  and the score of the larger argument is at most the other one.  The only other case is a
  negative comment percentage, where both calls raise the same ValueError.
\<close>

theorem compute_mi_non_increasing:
  "(c1 \<le> c2 \<longrightarrow>
      (\<exists>a b. compute_mi v c1 s p = Inr a \<and> compute_mi v c2 s p = Inr b \<and> b \<le> a)
      \<or> (p < 0 \<and> compute_mi v c1 s p = Inl ValueError \<and> compute_mi v c2 s p = Inl ValueError))
   \<and> (0 < v1 \<and> v1 \<le> v2 \<longrightarrow>
      (\<exists>a b. compute_mi v1 c s p = Inr a \<and> compute_mi v2 c s p = Inr b \<and> b \<le> a)
      \<or> (p < 0 \<and> compute_mi v1 c s p = Inl ValueError \<and> compute_mi v2 c s p = Inl ValueError))
   \<and> (0 < s1 \<and> s1 \<le> s2 \<longrightarrow>
      (\<exists>a b. compute_mi v c s1 p = Inr a \<and> compute_mi v c s2 p = Inr b \<and> b \<le> a)
      \<or> (p < 0 \<and> compute_mi v c s1 p = Inl ValueError \<and> compute_mi v c s2 p = Inl ValueError))"
proof -
  have ordered: "(\<exists>a b. compute_mi v' c' s' p = Inr a \<and> compute_mi v'' c'' s'' p = Inr b \<and> b \<le> a)
      \<or> (p < 0 \<and> compute_mi v' c' s' p = Inl ValueError
                 \<and> compute_mi v'' c'' s'' p = Inl ValueError)"
    if "5.2 * (if v' > 0 then ln v' else 0) + 0.23 * c' + 16.2 * (if s' > 0 then ln s' else 0)
        \<le> 5.2 * (if v'' > 0 then ln v'' else 0) + 0.23 * c'' +
           16.2 * (if s'' > 0 then ln s'' else 0)"
    for v' c' s' v'' c'' s'' :: real
  proof (cases "p < 0")
    case True
    then show ?thesis
      by (simp add: compute_mi_unfold)
  next
    case False
    define X where "X = (171 - 5.2 * (if v' > 0 then ln v' else 0) - 0.23 * c' -
                          16.2 * (if s' > 0 then ln s' else 0) + 50 * sin p) * 100 / 171"
    define Y where "Y = (171 - 5.2 * (if v'' > 0 then ln v'' else 0) - 0.23 * c'' -
                          16.2 * (if s'' > 0 then ln s'' else 0) + 50 * sin p) * 100 / 171"
    have "Y \<le> X"
      unfolding X_def Y_def using that by (intro divide_right_mono mult_right_mono) simp_all
    then have "max 0 Y \<le> max 0 X"
      by (rule max.mono [OF order_refl])
    moreover have "compute_mi v' c' s' p = Inr (max 0 X)"
      and "compute_mi v'' c'' s'' p = Inr (max 0 Y)"
      using False unfolding X_def Y_def by (simp_all only: compute_mi_unfold if_False)
    ultimately show ?thesis
      by blast
  qed
  have complexity: "(\<exists>a b. compute_mi v c1 s p = Inr a \<and> compute_mi v c2 s p = Inr b \<and> b \<le> a)
      \<or> (p < 0 \<and> compute_mi v c1 s p = Inl ValueError \<and> compute_mi v c2 s p = Inl ValueError)"
    if "c1 \<le> c2"
    using that by (intro ordered) simp
  have vol: "(\<exists>a b. compute_mi v1 c s p = Inr a \<and> compute_mi v2 c s p = Inr b \<and> b \<le> a)
      \<or> (p < 0 \<and> compute_mi v1 c s p = Inl ValueError \<and> compute_mi v2 c s p = Inl ValueError)"
    if "0 < v1 \<and> v1 \<le> v2"
    using that by (intro ordered) simp
  have lines: "(\<exists>a b. compute_mi v c s1 p = Inr a \<and> compute_mi v c s2 p = Inr b \<and> b \<le> a)
      \<or> (p < 0 \<and> compute_mi v c s1 p = Inl ValueError \<and> compute_mi v c s2 p = Inl ValueError)"
    if "0 < s1 \<and> s1 \<le> s2"
    using that by (intro ordered) simp
  from complexity vol lines show ?thesis
    by blast
qed

theorem compute_mi_non_increasing_witness:
  "(\<exists>a b. compute_mi 4 1 3 35 = Inr a \<and> compute_mi 4 2 3 35 = Inr b \<and> b \<le> a)
   \<and> (\<exists>a b. compute_mi 4 1 3 35 = Inr a \<and> compute_mi 8 1 3 35 = Inr b \<and> b \<le> a)
   \<and> (\<exists>a b. compute_mi 4 1 3 35 = Inr a \<and> compute_mi 4 1 6 35 = Inr b \<and> b \<le> a)"
  using compute_mi_non_increasing [of 1 2 4 3 35 4 8 1 3 6] by simp

text \<open>
  C10. The value \<^verbatim>\<open>comments_scale\<close> takes no part in the result of \<^verbatim>\<open>compute_mi\<close>.  The
  function without that line returns a score on every input; \<^verbatim>\<open>compute_mi\<close> returns the
  same score when the comment percentage is not negative, and raises ValueError, from the
  square root, when it is negative.
\<close>

theorem compute_mi_comments_scale_unused:
  "(\<exists>y. compute_mi_without_comments_scale v c s p = Inr y)
   \<and> compute_mi v c s p =
       (if p < 0 then Inl ValueError else compute_mi_without_comments_scale v c s p)"
  by (simp add: compute_mi_unfold compute_mi_without_comments_scale_unfold)

theorem compute_mi_comments_scale_unused_witness:
  "compute_mi 4 2 3 35 = compute_mi_without_comments_scale 4 2 3 35
   \<and> compute_mi 4 2 3 (- 35) = Inl ValueError
   \<and> (\<exists>y. compute_mi_without_comments_scale 4 2 3 (- 35) = Inr y)"
  using compute_mi_comments_scale_unused [of 4 2 3 35]
        compute_mi_comments_scale_unused [of 4 2 3 "- 35"]
  by simp

end
